theory Spec2Isabelle
  imports Complex_Main "HOL-Library.Signed_Division"
begin

section \<open>The underlying integral type\<close>

text \<open>
  \<open>Ratio<T>\<close> is a class template over an integral type \<open>T\<close>; the header names
  \<open>Ratio<std::int32_t>\<close>, \<open>Ratio<std::int64_t>\<close> and \<open>Ratio<std::ptrdiff_t>\<close>. \<open>T\<close> is
  modelled as the signed two's complement integers of \<open>w\<close> bits: the values from
  \<open>T_min w\<close> to \<open>T_max w\<close>, with \<open>+\<close>, \<open>-\<close>, \<open>*\<close> and unary minus wrapping around, as
  they do on the usual targets and as a conversion to \<open>T\<close> does. \<open>T\<close> is taken to be at
  least as wide as \<open>int\<close>, as the three named instances are, so that no operand is
  promoted to a wider type before an operation. The literals 0, 1 and 2 are values
  of \<open>T\<close>.

  The built-in \<open>/\<close> and \<open>%\<close> truncate towards zero: they are \<open>sdiv\<close> and \<open>smod\<close>, not
  \<open>div\<close> and \<open>mod\<close>. They trap on a zero divisor, and on \<open>T_min / -1\<close>, whose quotient
  is not a value of \<open>T\<close>; the model makes each trap a failure of its own, distinct
  from the exception the class throws.
\<close>

definition T_min :: "nat \<Rightarrow> int" where
  "T_min w = - (2 ^ w div 2)"

definition T_max :: "nat \<Rightarrow> int" where
  "T_max w = 2 ^ w div 2 - 1"

definition wrap :: "nat \<Rightarrow> int \<Rightarrow> int" where
  "wrap w x = (x + 2 ^ w div 2) mod 2 ^ w - 2 ^ w div 2"

definition add_T :: "nat \<Rightarrow> int \<Rightarrow> int \<Rightarrow> int" where
  "add_T w a b = wrap w (a + b)"

definition sub_T :: "nat \<Rightarrow> int \<Rightarrow> int \<Rightarrow> int" where
  "sub_T w a b = wrap w (a - b)"

definition mul_T :: "nat \<Rightarrow> int \<Rightarrow> int \<Rightarrow> int" where
  "mul_T w a b = wrap w (a * b)"

definition neg_T :: "nat \<Rightarrow> int \<Rightarrow> int" where
  "neg_T w a = wrap w (- a)"

datatype error = DivideByZeroException | IntegralDivisionByZero | IntegralDivisionOverflow

definition overflows :: "nat \<Rightarrow> int \<Rightarrow> int \<Rightarrow> bool" where
  "overflows w a b \<longleftrightarrow> a = T_min w \<and> b = - 1"

definition c_div :: "nat \<Rightarrow> int \<Rightarrow> int \<Rightarrow> error + int" where
  "c_div w a b =
     (if b = 0 then Inl IntegralDivisionByZero
      else if overflows w a b then Inl IntegralDivisionOverflow
      else Inr (a sdiv b))"

definition c_mod :: "nat \<Rightarrow> int \<Rightarrow> int \<Rightarrow> error + int" where
  "c_mod w a b =
     (if b = 0 then Inl IntegralDivisionByZero
      else if overflows w a b then Inl IntegralDivisionOverflow
      else Inr (a smod b))"

text \<open>Sequencing of two fallible steps: the first failure ends the evaluation.\<close>

definition and_then :: "error + 'a \<Rightarrow> ('a \<Rightarrow> error + 'b) \<Rightarrow> error + 'b" where
  "and_then m f = (case m of Inl e \<Rightarrow> Inl e | Inr x \<Rightarrow> f x)"

subsection \<open>\<open>gcd\<close>\<close>

text \<open>
  The loop of \<open>gcd\<close>, on the two values after the sign tests. Each of the two
  remainders has a divisor the loop has just tested against zero, and traps on
  \<open>T_min % -1\<close> as \<open>c_mod\<close> does.
\<close>

function gcd_loop :: "nat \<Rightarrow> int \<Rightarrow> int \<Rightarrow> error + int" where
  "gcd_loop w a b =
     (if b = 0 then Inr a
      else if overflows w a b then Inl IntegralDivisionOverflow
      else if a smod b = 0 then Inr b
      else if overflows w b (a smod b) then Inl IntegralDivisionOverflow
      else gcd_loop w (a smod b) (b smod (a smod b)))"
  by pat_completeness auto

termination
proof (relation "measure (\<lambda>(w, a, b). nat \<bar>b\<bar>)")
  show "wf (measure (\<lambda>(w :: nat, a :: int, b :: int). nat \<bar>b\<bar>))"
    by simp
next
  fix w :: nat and a b :: int
  assume b: "b \<noteq> 0" and r: "a smod b \<noteq> 0"
  have "\<bar>b smod (a smod b)\<bar> < \<bar>a smod b\<bar>"
    using smod_int_range [OF r, of b] by auto
  also have "\<bar>a smod b\<bar> < \<bar>b\<bar>"
    using smod_int_range [OF b, of a] by auto
  finally show "((w, a smod b, b smod (a smod b)), (w, a, b))
      \<in> measure (\<lambda>(w, a, b). nat \<bar>b\<bar>)"
    by simp
qed

definition gcd_T :: "nat \<Rightarrow> int \<Rightarrow> int \<Rightarrow> error + int" where
  "gcd_T w a b =
     gcd_loop w (if a < 0 then neg_T w a else a) (if b < 0 then neg_T w b else b)"

section \<open>The class \<open>Ratio<T>\<close>\<close>

text \<open>
  The private members \<open>numer_\<close> and \<open>denom_\<close>, under the names of their accessors
  \<open>numer()\<close> and \<open>denom()\<close>.
\<close>

record Ratio =
  numer :: int
  denom :: int

text \<open>The constructors: default, from one value, tagged \<open>NoReduceTag\<close>, and from two parts.\<close>

definition Ratio_default :: Ratio where
  "Ratio_default = \<lparr>numer = 0, denom = 1\<rparr>"

definition Ratio_noreduce :: "int \<Rightarrow> int \<Rightarrow> Ratio" where
  "Ratio_noreduce n d = \<lparr>numer = n, denom = d\<rparr>"

definition Ratio_value :: "int \<Rightarrow> Ratio" where
  "Ratio_value u = Ratio_noreduce u 1"

definition reduce :: "nat \<Rightarrow> Ratio \<Rightarrow> error + Ratio" where
  "reduce w r =
     and_then (gcd_T w (numer r) (denom r)) (\<lambda>g.
     and_then (c_div w (numer r) g) (\<lambda>n.
     and_then (c_div w (denom r) g) (\<lambda>d.
       if d < 0 then Inr \<lparr>numer = sub_T w 0 n, denom = sub_T w 0 d\<rparr>
       else Inr \<lparr>numer = n, denom = d\<rparr>)))"

definition Ratio_parts :: "nat \<Rightarrow> int \<Rightarrow> int \<Rightarrow> error + Ratio" where
  "Ratio_parts w n d =
     (if d = 0 then Inl DivideByZeroException
      else reduce w (Ratio_noreduce n d))"

definition make_ratio :: "nat \<Rightarrow> int \<Rightarrow> int \<Rightarrow> error + Ratio" where
  "make_ratio w n d = Ratio_parts w n d"

subsection \<open>Comparison operators\<close>

definition operator_eq :: "nat \<Rightarrow> Ratio \<Rightarrow> Ratio \<Rightarrow> bool" where
  "operator_eq w lhs rhs \<longleftrightarrow>
     mul_T w (numer lhs) (denom lhs) = mul_T w (numer rhs) (denom rhs)"

definition operator_ne :: "nat \<Rightarrow> Ratio \<Rightarrow> Ratio \<Rightarrow> bool" where
  "operator_ne w lhs rhs \<longleftrightarrow> \<not> operator_eq w lhs rhs"

definition operator_gt :: "nat \<Rightarrow> Ratio \<Rightarrow> Ratio \<Rightarrow> bool" where
  "operator_gt w lhs rhs \<longleftrightarrow>
     mul_T w (numer lhs) (denom lhs) > mul_T w (numer rhs) (denom rhs)"

definition operator_lt :: "nat \<Rightarrow> Ratio \<Rightarrow> Ratio \<Rightarrow> bool" where
  "operator_lt w lhs rhs \<longleftrightarrow> operator_gt w rhs lhs"

definition operator_le :: "nat \<Rightarrow> Ratio \<Rightarrow> Ratio \<Rightarrow> bool" where
  "operator_le w lhs rhs \<longleftrightarrow> \<not> operator_gt w lhs rhs"

definition operator_ge :: "nat \<Rightarrow> Ratio \<Rightarrow> Ratio \<Rightarrow> bool" where
  "operator_ge w lhs rhs \<longleftrightarrow> \<not> operator_lt w lhs rhs"

subsection \<open>Arithmetic operators\<close>

definition operator_plus :: "nat \<Rightarrow> Ratio \<Rightarrow> Ratio \<Rightarrow> error + Ratio" where
  "operator_plus w lhs rhs =
     Ratio_parts w
       (add_T w (mul_T w (numer lhs) (denom rhs)) (mul_T w (denom lhs) (numer rhs)))
       (mul_T w (denom lhs) (denom rhs))"

definition operator_minus :: "nat \<Rightarrow> Ratio \<Rightarrow> Ratio \<Rightarrow> error + Ratio" where
  "operator_minus w lhs rhs =
     Ratio_parts w
       (sub_T w (mul_T w (numer lhs) (denom rhs)) (mul_T w (denom lhs) (numer rhs)))
       (mul_T w (denom lhs) (denom rhs))"

definition operator_mod :: "nat \<Rightarrow> Ratio \<Rightarrow> Ratio \<Rightarrow> error + Ratio" where
  "operator_mod w lhs rhs =
     and_then
       (c_mod w (mul_T w (numer lhs) (denom rhs)) (mul_T w (denom lhs) (numer rhs)))
       (\<lambda>m. Ratio_parts w m (mul_T w (denom lhs) (denom rhs)))"

definition operator_times :: "nat \<Rightarrow> Ratio \<Rightarrow> Ratio \<Rightarrow> error + Ratio" where
  "operator_times w lhs rhs =
     Ratio_parts w (mul_T w (numer lhs) (numer rhs)) (mul_T w (denom lhs) (denom rhs))"

definition operator_div :: "nat \<Rightarrow> Ratio \<Rightarrow> Ratio \<Rightarrow> error + Ratio" where
  "operator_div w lhs rhs =
     make_ratio w (mul_T w (numer lhs) (denom rhs)) (mul_T w (denom lhs) (numer rhs))"

definition operator_neg :: "nat \<Rightarrow> Ratio \<Rightarrow> Ratio" where
  "operator_neg w rat = Ratio_noreduce (neg_T w (numer rat)) (denom rat)"

subsection \<open>Member functions\<close>

definition to_integer :: "nat \<Rightarrow> Ratio \<Rightarrow> error + int" where
  "to_integer w r = c_div w (numer r) (denom r)"

definition is_integer :: "Ratio \<Rightarrow> bool" where
  "is_integer r \<longleftrightarrow> denom r = 1"

definition reduced :: "nat \<Rightarrow> Ratio \<Rightarrow> error + Ratio" where
  "reduced w r = reduce w r"

definition trunc :: "nat \<Rightarrow> Ratio \<Rightarrow> error + Ratio" where
  "trunc w r = and_then (c_div w (numer r) (denom r)) (\<lambda>q. Inr (Ratio_value q))"

definition fract :: "nat \<Rightarrow> Ratio \<Rightarrow> error + Ratio" where
  "fract w r =
     and_then (c_mod w (numer r) (denom r)) (\<lambda>m. Inr (Ratio_noreduce m (denom r)))"

definition floor_r :: "nat \<Rightarrow> Ratio \<Rightarrow> error + Ratio" where
  "floor_r w r =
     (if operator_lt w r (Ratio_value 0)
      then and_then (c_div w (add_T w (sub_T w (numer r) (denom r)) 1) (denom r))
             (\<lambda>q. Inr (Ratio_value q))
      else and_then (c_div w (numer r) (denom r)) (\<lambda>q. Inr (Ratio_value q)))"

definition ceil_r :: "nat \<Rightarrow> Ratio \<Rightarrow> error + Ratio" where
  "ceil_r w r =
     (if operator_lt w r (Ratio_value 0)
      then and_then (c_div w (numer r) (denom r)) (\<lambda>q. Inr (Ratio_value q))
      else and_then (c_div w (sub_T w (add_T w (numer r) (denom r)) 1) (denom r))
             (\<lambda>q. Inr (Ratio_value q)))"

text \<open>
  \<open>round\<close> declares \<open>half_or_larger\<close> as \<open>const bool\<close> without a value and assigns it
  in both branches of the parity test that follows; the model binds it to the value
  assigned. The divisors \<open>2\<close> and \<open>two\<close> are not zero and not \<open>-1\<close>, so the two
  divisions of the test cannot trap.
\<close>

definition half_or_larger :: "nat \<Rightarrow> Ratio \<Rightarrow> bool" where
  "half_or_larger w fractional =
     (let one = 1; two = add_T w one one in
      if denom fractional smod 2 = 0
      then numer fractional \<ge> denom fractional sdiv two
      else numer fractional \<ge> add_T w (denom fractional sdiv two) one)"

definition round_r :: "nat \<Rightarrow> Ratio \<Rightarrow> error + Ratio" where
  "round_r w r =
     (let zero = Ratio_value 0 in
      and_then (fract w r) (\<lambda>f.
      and_then (if operator_lt w f zero then operator_minus w zero f else Inr f)
        (\<lambda>fractional.
          if half_or_larger w fractional then
            (let one = Ratio_value 1 in
             if operator_gt w r (Ratio_value 0)
             then and_then (trunc w r) (\<lambda>t. operator_plus w t one)
             else and_then (trunc w r) (\<lambda>t. operator_minus w t one))
          else trunc w r)))"

definition is_zero :: "Ratio \<Rightarrow> bool" where
  "is_zero r \<longleftrightarrow> numer r = 0"

definition is_positive :: "Ratio \<Rightarrow> bool" where
  "is_positive r \<longleftrightarrow> numer r > 0"

definition is_negative :: "Ratio \<Rightarrow> bool" where
  "is_negative r \<longleftrightarrow> numer r < 0"

definition zero_r :: Ratio where
  "zero_r = Ratio_noreduce 0 1"

definition one_r :: Ratio where
  "one_r = Ratio_noreduce 1 1"

text \<open>The two literals of \<open>pi\<close> are of type \<open>int\<close> and are converted to \<open>T\<close>.\<close>

definition pi_r :: "nat \<Rightarrow> Ratio" where
  "pi_r w = Ratio_noreduce (wrap w 6283) (wrap w 2000)"

subsection \<open>The invariant and the exact value\<close>

text \<open>
  A ratio is in normal form when its denominator is positive and shares no factor
  with its numerator. The only normal form with numerator 0 is \<open>0/1\<close>.
\<close>

definition normal :: "Ratio \<Rightarrow> bool" where
  "normal r \<longleftrightarrow> denom r > 0 \<and> gcd \<bar>numer r\<bar> (denom r) = 1"

definition exact :: "Ratio \<Rightarrow> rat" where
  "exact r = of_int (numer r) / of_int (denom r)"



section \<open>Reduction to lowest terms\<close>

text \<open>
  Wrapping leaves a value of \<open>T\<close> as it is and respects sums, differences and
  products. On operands whose magnitudes are values of \<open>T\<close> the loop computes the
  greatest common divisor, \<open>reduce\<close> divides exactly, and the two-part constructor
  returns the one normal form of the fraction it is given.
\<close>

declare gcd_loop.simps [simp del]

lemma half_power: "0 < w \<Longrightarrow> (2 :: int) ^ w div 2 = 2 ^ (w - 1)"
  by (cases w) simp_all

lemma T_max_pos: "8 \<le> w \<Longrightarrow> 127 \<le> T_max w"
proof -
  assume w: "8 \<le> w"
  then have "(2 :: int) ^ 7 \<le> 2 ^ (w - 1)"
    by (intro power_increasing) simp_all
  then show ?thesis
    using w by (simp add: T_max_def half_power)
qed

lemma wrap_id:
  assumes "T_min w \<le> x" and "x \<le> T_max w"
  shows "wrap w x = x"
proof -
  have "(2 :: int) ^ w div 2 + 2 ^ w div 2 \<le> 2 ^ w"
    by (cases w) simp_all
  then have "0 \<le> x + 2 ^ w div 2" "x + 2 ^ w div 2 < 2 ^ w"
    using assms by (simp_all add: T_min_def T_max_def)
  then have "(x + 2 ^ w div 2) mod 2 ^ w = x + 2 ^ w div 2"
    by (rule mod_pos_pos_trivial)
  then show ?thesis
    by (simp add: wrap_def)
qed

lemma wrap_small: "\<bar>x\<bar> \<le> T_max w \<Longrightarrow> wrap w x = x"
  by (rule wrap_id) (auto simp: T_min_def T_max_def)

lemma wrap_0: "wrap w 0 = 0"
proof -
  have "(0 :: int) \<le> 2 ^ w div 2" "(2 :: int) ^ w div 2 < 2 ^ w"
    by (cases w; simp)+
  then have "(2 :: int) ^ w div 2 mod 2 ^ w = 2 ^ w div 2"
    by (rule mod_pos_pos_trivial)
  then show ?thesis
    by (simp add: wrap_def)
qed

lemma wrap_mod: "wrap w x mod 2 ^ w = x mod 2 ^ w"
proof -
  have "((x + 2 ^ w div 2) mod 2 ^ w - 2 ^ w div 2) mod 2 ^ w
      = (x + 2 ^ w div 2 - 2 ^ w div 2) mod 2 ^ w"
    by (rule mod_diff_left_eq)
  then show ?thesis
    by (simp add: wrap_def)
qed

lemma wrap_cong: "x mod 2 ^ w = y mod 2 ^ w \<Longrightarrow> wrap w x = wrap w y"
proof -
  assume "x mod 2 ^ w = y mod 2 ^ w"
  then have "(x + 2 ^ w div 2) mod 2 ^ w = (y + 2 ^ w div 2) mod 2 ^ w"
    by (rule mod_add_cong) simp
  then show ?thesis
    by (simp add: wrap_def)
qed

lemma add_T_mul_T: "add_T w (mul_T w a b) (mul_T w c d) = wrap w (a * b + c * d)"
  unfolding add_T_def mul_T_def
  by (intro wrap_cong mod_add_cong wrap_mod)

lemma sub_T_mul_T: "sub_T w (mul_T w a b) (mul_T w c d) = wrap w (a * b - c * d)"
  unfolding sub_T_def mul_T_def
  by (intro wrap_cong mod_diff_cong wrap_mod)

lemma gcd_loop_gcd: "0 \<le> a \<Longrightarrow> 0 \<le> b \<Longrightarrow> gcd_loop w a b = Inr (gcd a b)"
proof (induction w a b rule: gcd_loop.induct)
  case (1 w a b)
  show ?case
  proof (cases "b = 0")
    case True
    with "1.prems" show ?thesis by (simp add: gcd_loop.simps)
  next
    case b: False
    with "1.prems" have bpos: "0 < b" by simp
    then have o1: "\<not> overflows w a b"
      by (simp add: overflows_def)
    have m: "a smod b = a mod b"
      using "1.prems" by (simp add: smod_mod_positive)
    show ?thesis
    proof (cases "a mod b = 0")
      case True
      then have "gcd a b = b"
        using "1.prems" by (metis abs_of_nonneg gcd.commute gcd_0_left_int gcd_red_int)
      with b m o1 True show ?thesis by (simp add: gcd_loop.simps)
    next
      case r: False
      have "0 \<le> a mod b"
        using bpos by simp
      with r have rpos: "0 < a mod b" by simp
      then have p: "0 \<le> b mod (a mod b)" by simp
      have o2: "\<not> overflows w b (a mod b)"
        using rpos by (simp add: overflows_def)
      have m': "b smod (a mod b) = b mod (a mod b)"
        using "1.prems" rpos by (simp add: smod_mod_positive)
      have "gcd_loop w a b = gcd_loop w (a mod b) (b mod (a mod b))"
        using b r m m' o1 o2 by (simp add: gcd_loop.simps)
      also have "\<dots> = Inr (gcd (a mod b) (b mod (a mod b)))"
        using "1.IH" b r m m' p rpos o1 o2 by simp
      also have "gcd (a mod b) (b mod (a mod b)) = gcd a b"
        by (metis gcd.commute gcd_red_int)
      finally show ?thesis .
    qed
  qed
qed

lemma neg_T_small: "\<bar>a\<bar> \<le> T_max w \<Longrightarrow> neg_T w a = - a"
  by (simp add: neg_T_def wrap_small)

lemma gcd_T_gcd:
  "\<bar>a\<bar> \<le> T_max w \<Longrightarrow> \<bar>b\<bar> \<le> T_max w \<Longrightarrow> gcd_T w a b = Inr (gcd a b)"
  by (simp add: gcd_T_def gcd_loop_gcd neg_T_small)

lemma sdiv_exact: "g dvd a \<Longrightarrow> a sdiv g = a div (g :: int)"
  by (simp add: signed_divide_int_eq_divide_int)

lemma c_div_pos: "0 < g \<Longrightarrow> c_div w a g = Inr (a sdiv g)"
  by (simp add: c_div_def overflows_def)

lemma c_mod_pos: "0 < g \<Longrightarrow> c_mod w a g = Inr (a smod g)"
  by (simp add: c_mod_def overflows_def)

lemma abs_div_le: "0 < g \<Longrightarrow> g dvd a \<Longrightarrow> \<bar>a div g\<bar> \<le> \<bar>a :: int\<bar>"
  by (metis abs_div abs_of_pos div_by_1 zdiv_mono2 abs_ge_zero less_le_not_le linorder_not_less
      zero_less_one int_one_le_iff_zero_less)

lemma reduce_small:
  assumes d: "denom r \<noteq> 0"
    and n: "\<bar>numer r\<bar> \<le> T_max w" "\<bar>denom r\<bar> \<le> T_max w"
  shows "reduce w r = Inr \<lparr>numer = sgn (denom r) * (numer r div gcd (numer r) (denom r)),
                           denom = \<bar>denom r\<bar> div gcd (numer r) (denom r)\<rparr>"
proof -
  define g where "g = gcd (numer r) (denom r)"
  have g: "0 < g" "g dvd numer r" "g dvd denom r"
    using d by (auto simp: g_def)
  have neg: "denom r div g < 0 \<longleftrightarrow> denom r < 0"
    using g by (simp add: pos_imp_zdiv_neg_iff)
  have ab: "- (denom r div g) = \<bar>denom r\<bar> div g" if "denom r < 0"
    using g that by (simp add: dvd_neg_div)
  have ab': "denom r div g = \<bar>denom r\<bar> div g" if "\<not> denom r < 0"
    using that by simp
  have "\<bar>numer r div g\<bar> \<le> T_max w" "\<bar>denom r div g\<bar> \<le> T_max w"
    using g n abs_div_le [of g "numer r"] abs_div_le [of g "denom r"] by simp_all
  then have s: "sub_T w 0 (numer r div g) = - (numer r div g)"
      "sub_T w 0 (denom r div g) = - (denom r div g)"
    by (simp_all add: sub_T_def wrap_small)
  show ?thesis
    using d g neg ab ab' s n
    by (simp add: reduce_def gcd_T_gcd c_div_pos and_then_def sdiv_exact sgn_if flip: g_def)
qed

lemma Ratio_parts_small:
  "d \<noteq> 0 \<Longrightarrow> \<bar>n\<bar> \<le> T_max w \<Longrightarrow> \<bar>d\<bar> \<le> T_max w \<Longrightarrow>
   Ratio_parts w n d = Inr \<lparr>numer = sgn d * (n div gcd n d), denom = \<bar>d\<bar> div gcd n d\<rparr>"
  by (simp add: Ratio_parts_def Ratio_noreduce_def reduce_small)

lemma normal_lowest_terms:
  assumes "d \<noteq> 0"
  shows "normal \<lparr>numer = sgn d * (n div gcd n d), denom = \<bar>d\<bar> div gcd n d\<rparr>"
proof -
  define g where "g = gcd n d"
  have g: "0 < g" "g dvd n" "g dvd d"
    using assms by (auto simp: g_def)
  have "g \<le> \<bar>d\<bar>"
    using g assms by (simp add: zdvd_imp_le)
  then have pos: "0 < \<bar>d\<bar> div g"
    using g by (simp add: pos_imp_zdiv_pos_iff)
  have "\<bar>d\<bar> div g = \<bar>d div g\<bar>"
    using g by (simp add: abs_div)
  moreover have "\<bar>sgn d * (n div g)\<bar> = \<bar>n div g\<bar>"
    using assms by (simp add: abs_mult)
  moreover have "gcd (n div g) (d div g) = 1"
    unfolding g_def using assms by (simp add: div_gcd_coprime)
  ultimately have "gcd \<bar>sgn d * (n div g)\<bar> (\<bar>d\<bar> div g) = 1"
    by simp
  with pos show ?thesis
    by (simp add: normal_def flip: g_def)
qed

lemma cross_lowest_terms:
  assumes "d \<noteq> 0"
  shows "sgn d * (n div gcd n d) * d = n * (\<bar>d\<bar> div gcd n (d :: int))"
proof -
  define g where "g = gcd n d"
  have g: "0 < g" "g dvd n" "g dvd d"
    using assms by (auto simp: g_def)
  obtain n' where n: "n = g * n'" using g by (auto elim: dvdE)
  obtain d' where d: "d = g * d'" using g by (auto elim: dvdE)
  have q: "n div g = n'" "\<bar>d\<bar> div g = \<bar>d'\<bar>"
    using g n d by (simp_all add: abs_mult)
  have "sgn d = sgn d'" using g d by (simp add: sgn_mult)
  then have "sgn d * n' * (g * d') = g * n' * \<bar>d'\<bar>"
    by (simp add: abs_sgn mult.commute mult.left_commute)
  then have "sgn d * n' * d = n * \<bar>d'\<bar>"
    using n d by simp
  then have "sgn d * (n div g) * d = n * (\<bar>d\<bar> div g)"
    by (simp only: q)
  then show ?thesis
    by (simp only: g_def)
qed

lemma normal_unique:
  assumes r: "normal r" and s: "normal s"
    and eq: "numer r * denom s = numer s * denom r"
  shows "r = s"
proof -
  have cr: "coprime (numer r) (denom r)" and cs: "coprime (numer s) (denom s)"
    using r s by (simp_all add: normal_def coprime_iff_gcd_eq_1)
  have "denom r dvd numer r * denom s"
    using eq by simp
  then have 1: "denom r dvd denom s"
    using cr by (simp add: coprime_dvd_mult_right_iff coprime_commute)
  have "denom s dvd numer s * denom r"
    using eq [symmetric] by simp
  then have 2: "denom s dvd denom r"
    using cs by (simp add: coprime_dvd_mult_right_iff coprime_commute)
  have d: "denom r = denom s"
    using 1 2 r s by (simp add: normal_def zdvd_antisym_nonneg)
  then have "numer r = numer s"
    using eq s by (simp add: normal_def)
  with d show ?thesis by simp
qed

lemma Ratio_parts_normal:
  assumes "d \<noteq> 0" "\<bar>n\<bar> \<le> T_max w" "\<bar>d\<bar> \<le> T_max w"
  shows "\<exists>r. Ratio_parts w n d = Inr r \<and> normal r \<and> numer r * d = n * denom r"
  using assms
  by (simp add: Ratio_parts_small normal_lowest_terms cross_lowest_terms)

lemma Ratio_parts_eqI:
  assumes w: "\<bar>n\<bar> \<le> T_max w" "\<bar>d\<bar> \<le> T_max w"
    and d: "d \<noteq> 0" and s: "normal s" and eq: "numer s * d = n * denom s"
  shows "Ratio_parts w n d = Inr s"
proof -
  obtain r where r: "Ratio_parts w n d = Inr r" "normal r" "numer r * d = n * denom r"
    using Ratio_parts_normal [OF d w] by blast
  have "(numer r * denom s) * d = (numer r * d) * denom s"
    by (simp add: mult.commute mult.left_commute)
  also have "\<dots> = (numer s * d) * denom r"
    using r(3) eq by (simp add: mult.commute mult.left_commute)
  also have "\<dots> = (numer s * denom r) * d"
    by (simp add: mult.commute mult.left_commute)
  finally have "numer r * denom s = numer s * denom r"
    using d by simp
  with r(2) s have "r = s"
    by (rule normal_unique)
  with r(1) show ?thesis by simp
qed

lemma normal_Ratio_parts:
  assumes "normal r" "\<bar>numer r\<bar> \<le> T_max w" "denom r \<le> T_max w"
  shows "Ratio_parts w (numer r) (denom r) = Inr r"
  using assms by (intro Ratio_parts_eqI) (simp_all add: normal_def)

lemma Ratio_parts_exact:
  assumes "d \<noteq> 0" "\<bar>n\<bar> \<le> T_max w" "\<bar>d\<bar> \<le> T_max w"
  shows "\<exists>r. Ratio_parts w n d = Inr r \<and> normal r \<and> exact r = of_int n / of_int d"
proof -
  obtain r where r: "Ratio_parts w n d = Inr r" "normal r" "numer r * d = n * denom r"
    using Ratio_parts_normal [OF assms] by blast
  then have "denom r \<noteq> 0" by (simp add: normal_def)
  then have "exact r = of_int n / of_int d"
    using assms(1) r(3) by (simp add: exact_def frac_eq_eq flip: of_int_mult)
  with r show ?thesis by blast
qed

lemma gcd_loop_error: "gcd_loop w a b \<noteq> Inl DivideByZeroException"
proof (induction w a b rule: gcd_loop.induct)
  case (1 w a b)
  then show ?case
    by (subst gcd_loop.simps) simp
qed

lemma and_then_error:
  assumes "m \<noteq> Inl DivideByZeroException"
    and "\<And>x. f x \<noteq> Inl DivideByZeroException"
  shows "and_then m f \<noteq> Inl DivideByZeroException"
  using assms by (cases m) (simp_all add: and_then_def)

lemma reduce_error: "reduce w r \<noteq> Inl DivideByZeroException"
  unfolding reduce_def
  by (intro and_then_error) (simp_all add: gcd_T_def gcd_loop_error c_div_def)

section \<open>Comparison\<close>

text \<open>
  C1. Equality and \<open>>\<close> are said to compare by cross-multiplication,
  \<open>a/b == c/d\<close> exactly when \<open>a * d = b * c\<close> and \<open>a/b > c/d\<close> exactly when
  \<open>a * d > b * c\<close>. The operators multiply each operand's own numerator and
  denominator instead: on \<open>Ratio<std::int32_t>\<close>, \<open>1/2 == 2/1\<close> holds although
  \<open>1 * 1\<close> is not \<open>2 * 2\<close>, and \<open>1/2 > 1/3\<close> fails although \<open>1 * 3 > 2 * 1\<close>; \<open><\<close>
  inherits the same answer.
\<close>

theorem comparison_multiplies_own_parts:
  "normal \<lparr>numer = 1, denom = 2\<rparr> \<and> normal \<lparr>numer = 2, denom = 1\<rparr>
   \<and> normal \<lparr>numer = 1, denom = 3\<rparr>
   \<and> operator_eq 32 \<lparr>numer = 1, denom = 2\<rparr> \<lparr>numer = 2, denom = 1\<rparr>
   \<and> (1 :: int) * 1 \<noteq> 2 * 2
   \<and> \<not> operator_gt 32 \<lparr>numer = 1, denom = 2\<rparr> \<lparr>numer = 1, denom = 3\<rparr>
   \<and> (1 :: int) * 3 > 2 * 1
   \<and> \<not> operator_lt 32 \<lparr>numer = 1, denom = 3\<rparr> \<lparr>numer = 1, denom = 2\<rparr>"
  by (simp add: normal_def operator_eq_def operator_gt_def operator_lt_def mul_T_def wrap_def)

section \<open>Construction and division by zero\<close>

text \<open>
  C3. The two-part constructor throws \<open>DivideByZeroException\<close> exactly when the
  denominator it is given is 0, and then returns no ratio; so do \<open>make_ratio\<close> and,
  through it, the division of any ratio by a ratio whose numerator is 0. (The
  constructor and the operators are declared \<open>noexcept\<close>: the exception is thrown,
  and ends the program rather than reaching a handler.)
\<close>

theorem divide_by_zero_exactly:
  "(Ratio_parts w n d = Inl DivideByZeroException \<longleftrightarrow> d = 0)
   \<and> (make_ratio w n d = Inl DivideByZeroException \<longleftrightarrow> d = 0)
   \<and> Ratio_parts w n 0 \<noteq> Inr r
   \<and> operator_div w lhs \<lparr>numer = 0, denom = d\<rparr> = Inl DivideByZeroException"
proof -
  have "Ratio_parts w n d = Inl DivideByZeroException \<longleftrightarrow> d = 0"
    by (simp add: Ratio_parts_def reduce_error)
  moreover have "Ratio_parts w n 0 \<noteq> Inr r"
    by (simp add: Ratio_parts_def)
  moreover have "operator_div w lhs \<lparr>numer = 0, denom = d\<rparr> = Inl DivideByZeroException"
    by (simp add: operator_div_def make_ratio_def Ratio_parts_def mul_T_def wrap_0)
  ultimately show ?thesis
    by (simp add: make_ratio_def)
qed

section \<open>Sign tests\<close>

lemma mul_T_small: "\<bar>a * b\<bar> \<le> T_max w \<Longrightarrow> mul_T w a b = a * b"
  by (simp add: mul_T_def wrap_small)










section \<open>Integral and fractional part\<close>

lemma normal_denom_pos: "normal r \<Longrightarrow> 0 < denom r"
  by (simp add: normal_def)

lemma normal_Ratio_value: "normal (Ratio_value u)"
  by (simp add: normal_def Ratio_value_def Ratio_noreduce_def)

lemma trunc_pos:
  "0 < denom r \<Longrightarrow> trunc w r = Inr \<lparr>numer = numer r sdiv denom r, denom = 1\<rparr>"
  by (simp add: trunc_def c_div_pos and_then_def Ratio_value_def Ratio_noreduce_def)

lemma fract_pos:
  "0 < denom r \<Longrightarrow> fract w r = Inr \<lparr>numer = numer r smod denom r, denom = denom r\<rparr>"
  by (simp add: fract_def c_mod_pos and_then_def Ratio_noreduce_def)

lemma abs_smod: "\<bar>a smod b\<bar> = \<bar>a\<bar> mod \<bar>b :: int\<bar>"
proof -
  have "0 \<le> \<bar>a\<bar> mod \<bar>b\<bar>"
    by (cases "b = 0") simp_all
  then show ?thesis
    by (cases "a = 0") (simp_all add: signed_modulo_int_def abs_mult)
qed

lemma normal_fract:
  assumes "normal r"
  shows "normal \<lparr>numer = numer r smod denom r, denom = denom r\<rparr>"
proof -
  have d: "0 < denom r" and g: "gcd \<bar>numer r\<bar> (denom r) = 1"
    using assms by (simp_all add: normal_def)
  have "gcd (\<bar>numer r\<bar> mod denom r) (denom r) = gcd \<bar>numer r\<bar> (denom r)"
    by (metis gcd_red_int gcd.commute)
  then show ?thesis
    using d g by (simp add: normal_def abs_smod)
qed

text \<open>
  C9. For a ratio in normal form, \<open>trunc\<close> is the quotient of numerator by denominator,
  truncated towards zero, over the denominator 1; \<open>fract\<close> keeps the denominator; and
  the exact values of the two add up to the exact value of the ratio.
\<close>

theorem trunc_plus_fract:
  assumes "normal r"
  shows "\<exists>t f. trunc w r = Inr t \<and> fract w r = Inr f
           \<and> exact t + exact f = exact r
           \<and> denom f = denom r
           \<and> t = \<lparr>numer = numer r sdiv denom r, denom = 1\<rparr>
           \<and> numer t = sgn (numer r) * \<lfloor>\<bar>exact r\<bar>\<rfloor>"
proof -
  have d: "0 < denom r"
    using assms by (rule normal_denom_pos)
  let ?t = "\<lparr>numer = numer r sdiv denom r, denom = 1\<rparr>"
  let ?f = "\<lparr>numer = numer r smod denom r, denom = denom r\<rparr>"
  have t: "trunc w r = Inr ?t"
    using d by (rule trunc_pos)
  have f: "fract w r = Inr ?f"
    using d by (rule fract_pos)
  have "(of_int (numer r sdiv denom r) :: rat) * of_int (denom r) + of_int (numer r smod denom r)
      = of_int (numer r)"
    by (simp add: sdiv_mult_smod_eq flip: of_int_mult of_int_add)
  then have sum: "exact ?t + exact ?f = exact r"
    using d by (simp add: exact_def field_simps)
  have "\<bar>exact r\<bar> = of_int \<bar>numer r\<bar> / of_int (denom r)"
    using d by (simp add: exact_def)
  then have "\<lfloor>\<bar>exact r\<bar>\<rfloor> = \<bar>numer r\<bar> div denom r"
    by (simp only: floor_divide_of_int_eq)
  then have "numer ?t = sgn (numer r) * \<lfloor>\<bar>exact r\<bar>\<rfloor>"
    using d by (simp add: signed_divide_int_def)
  with t f sum show ?thesis
    by simp
qed

text \<open>The two parts of \<open>-7/2\<close> are \<open>-3/1\<close> and \<open>-1/2\<close>.\<close>

theorem trunc_plus_fract_witness:
  "normal \<lparr>numer = -7, denom = 2\<rparr>
   \<and> trunc 32 \<lparr>numer = -7, denom = 2\<rparr> = Inr \<lparr>numer = -3, denom = 1\<rparr>
   \<and> fract 32 \<lparr>numer = -7, denom = 2\<rparr> = Inr \<lparr>numer = -1, denom = 2\<rparr>
   \<and> exact \<lparr>numer = -3, denom = 1\<rparr> + exact \<lparr>numer = -1, denom = 2\<rparr>
       = exact \<lparr>numer = -7, denom = 2\<rparr>"
proof -
  have n: "normal \<lparr>numer = -7, denom = 2\<rparr>"
    by (simp add: normal_def)
  have t: "trunc 32 \<lparr>numer = -7, denom = 2\<rparr> = Inr \<lparr>numer = -3, denom = 1\<rparr>"
    by (simp add: trunc_pos signed_divide_int_def)
  have f: "fract 32 \<lparr>numer = -7, denom = 2\<rparr> = Inr \<lparr>numer = -1, denom = 2\<rparr>"
    by (simp add: fract_pos signed_modulo_int_def)
  show ?thesis
    using trunc_plus_fract [OF n, of 32] n t f by simp
qed

section \<open>Arithmetic\<close>

text \<open>
  Each binary operator forms its cross products in \<open>T\<close>. Sums, differences and
  products wrap consistently, so for \<open>+\<close>, \<open>-\<close> and \<open>*\<close> it is the numerator and the
  denominator handed to the constructor that matter; \<open>/\<close> and \<open>%\<close> use the cross
  products themselves.
\<close>

lemma normal_zero_r: "normal zero_r"
  by (simp add: zero_r_def normal_def Ratio_noreduce_def)

lemma normal_one_r: "normal one_r"
  by (simp add: one_r_def normal_def Ratio_noreduce_def)

lemma operator_plus_small:
  assumes "\<bar>a * d + b * c\<bar> \<le> T_max w" and "\<bar>b * d\<bar> \<le> T_max w"
  shows "operator_plus w \<lparr>numer = a, denom = b\<rparr> \<lparr>numer = c, denom = d\<rparr>
         = Ratio_parts w (a * d + b * c) (b * d)"
  using assms by (simp add: operator_plus_def add_T_mul_T wrap_small mul_T_small)

lemma operator_minus_small:
  assumes "\<bar>a * d - b * c\<bar> \<le> T_max w" and "\<bar>b * d\<bar> \<le> T_max w"
  shows "operator_minus w \<lparr>numer = a, denom = b\<rparr> \<lparr>numer = c, denom = d\<rparr>
         = Ratio_parts w (a * d - b * c) (b * d)"
  using assms by (simp add: operator_minus_def sub_T_mul_T wrap_small mul_T_small)

lemma operator_times_small:
  assumes "\<bar>a * c\<bar> \<le> T_max w" and "\<bar>b * d\<bar> \<le> T_max w"
  shows "operator_times w \<lparr>numer = a, denom = b\<rparr> \<lparr>numer = c, denom = d\<rparr>
         = Ratio_parts w (a * c) (b * d)"
  using assms by (simp add: operator_times_def mul_T_small)

lemma operator_div_small:
  assumes "\<bar>a * d\<bar> \<le> T_max w" and "\<bar>b * c\<bar> \<le> T_max w"
  shows "operator_div w \<lparr>numer = a, denom = b\<rparr> \<lparr>numer = c, denom = d\<rparr>
         = Ratio_parts w (a * d) (b * c)"
  using assms by (simp add: operator_div_def make_ratio_def mul_T_small)

lemma operator_mod_small:
  assumes "\<bar>a * d\<bar> \<le> T_max w" and "\<bar>b * c\<bar> \<le> T_max w" and "\<bar>b * d\<bar> \<le> T_max w"
    and "b * c \<noteq> 0"
  shows "operator_mod w \<lparr>numer = a, denom = b\<rparr> \<lparr>numer = c, denom = d\<rparr>
         = Ratio_parts w ((a * d) smod (b * c)) (b * d)"
proof -
  have "\<not> overflows w (a * d) (b * c)"
    using assms(1) by (auto simp: overflows_def T_min_def T_max_def)
  then show ?thesis
    using assms by (simp add: operator_mod_def mul_T_small c_mod_def and_then_def)
qed

text \<open>
  On \<open>Ratio<std::int32_t>\<close>, \<open>1/65536 + 1/65536\<close> has the denominator
  \<open>65536 * 65536\<close>, which wraps around to 0: the constructor throws, and no ratio is
  returned. \<open>65536/1 * 65536/1\<close> has a numerator that wraps around to 0, and the
  product returned is \<open>0/1\<close>.
\<close>

theorem arithmetic_overflows:
  "normal \<lparr>numer = 1, denom = 65536\<rparr>
   \<and> T_min 32 \<le> 65536 \<and> 65536 \<le> T_max 32
   \<and> operator_plus 32 \<lparr>numer = 1, denom = 65536\<rparr> \<lparr>numer = 1, denom = 65536\<rparr>
       = Inl DivideByZeroException
   \<and> (65536 :: int) * 65536 \<noteq> 0
   \<and> normal \<lparr>numer = 65536, denom = 1\<rparr>
   \<and> operator_times 32 \<lparr>numer = 65536, denom = 1\<rparr> \<lparr>numer = 65536, denom = 1\<rparr>
       = Inr \<lparr>numer = 0, denom = 1\<rparr>
   \<and> exact \<lparr>numer = 0, denom = 1\<rparr> \<noteq> of_int (65536 * 65536) / of_int (1 * 1)"
  by code_simp

text \<open>
  C4, amended. For operands \<open>a/b\<close> and \<open>c/d\<close> in normal form, each binary operator
  returns the normal form of the fraction it builds by cross-multiplication,
  \<open>(a*d + b*c)/(b*d)\<close> for \<open>+\<close>, \<open>(a*d - b*c)/(b*d)\<close> for \<open>-\<close>, \<open>(a*c)/(b*d)\<close> for \<open>*\<close>
  and, when \<open>c\<close> is not 0, \<open>(a*d)/(b*c)\<close> for \<open>/\<close>, provided the numerator and the
  denominator of that fraction are, in magnitude, values of \<open>T\<close>.
\<close>

theorem arithmetic_cross_multiplies:
  assumes "normal \<lparr>numer = a, denom = b\<rparr>" and "normal \<lparr>numer = c, denom = d\<rparr>"
  shows "(\<bar>a * d + b * c\<bar> \<le> T_max w \<and> \<bar>b * d\<bar> \<le> T_max w \<longrightarrow>
            (\<exists>r. operator_plus w \<lparr>numer = a, denom = b\<rparr> \<lparr>numer = c, denom = d\<rparr> = Inr r
              \<and> normal r \<and> exact r = of_int (a * d + b * c) / of_int (b * d)))
       \<and> (\<bar>a * d - b * c\<bar> \<le> T_max w \<and> \<bar>b * d\<bar> \<le> T_max w \<longrightarrow>
            (\<exists>r. operator_minus w \<lparr>numer = a, denom = b\<rparr> \<lparr>numer = c, denom = d\<rparr> = Inr r
              \<and> normal r \<and> exact r = of_int (a * d - b * c) / of_int (b * d)))
       \<and> (\<bar>a * c\<bar> \<le> T_max w \<and> \<bar>b * d\<bar> \<le> T_max w \<longrightarrow>
            (\<exists>r. operator_times w \<lparr>numer = a, denom = b\<rparr> \<lparr>numer = c, denom = d\<rparr> = Inr r
              \<and> normal r \<and> exact r = of_int (a * c) / of_int (b * d)))
       \<and> (c \<noteq> 0 \<and> \<bar>a * d\<bar> \<le> T_max w \<and> \<bar>b * c\<bar> \<le> T_max w \<longrightarrow>
            (\<exists>r. operator_div w \<lparr>numer = a, denom = b\<rparr> \<lparr>numer = c, denom = d\<rparr> = Inr r
              \<and> normal r \<and> exact r = of_int (a * d) / of_int (b * c)))"
proof -
  have b: "b \<noteq> 0" and d: "d \<noteq> 0"
    using assms by (simp_all add: normal_def)
  then have bd: "b * d \<noteq> 0" by simp
  have bc: "b * c \<noteq> 0" if "c \<noteq> 0"
    using b that by simp
  have "\<exists>r. operator_plus w \<lparr>numer = a, denom = b\<rparr> \<lparr>numer = c, denom = d\<rparr> = Inr r
          \<and> normal r \<and> exact r = of_int (a * d + b * c) / of_int (b * d)"
    if "\<bar>a * d + b * c\<bar> \<le> T_max w" "\<bar>b * d\<bar> \<le> T_max w"
    unfolding operator_plus_small [OF that]
    using bd that by (rule Ratio_parts_exact)
  moreover
  have "\<exists>r. operator_minus w \<lparr>numer = a, denom = b\<rparr> \<lparr>numer = c, denom = d\<rparr> = Inr r
          \<and> normal r \<and> exact r = of_int (a * d - b * c) / of_int (b * d)"
    if "\<bar>a * d - b * c\<bar> \<le> T_max w" "\<bar>b * d\<bar> \<le> T_max w"
    unfolding operator_minus_small [OF that]
    using bd that by (rule Ratio_parts_exact)
  moreover
  have "\<exists>r. operator_times w \<lparr>numer = a, denom = b\<rparr> \<lparr>numer = c, denom = d\<rparr> = Inr r
          \<and> normal r \<and> exact r = of_int (a * c) / of_int (b * d)"
    if "\<bar>a * c\<bar> \<le> T_max w" "\<bar>b * d\<bar> \<le> T_max w"
    unfolding operator_times_small [OF that]
    using bd that by (rule Ratio_parts_exact)
  moreover
  have "\<exists>r. operator_div w \<lparr>numer = a, denom = b\<rparr> \<lparr>numer = c, denom = d\<rparr> = Inr r
          \<and> normal r \<and> exact r = of_int (a * d) / of_int (b * c)"
    if "c \<noteq> 0" "\<bar>a * d\<bar> \<le> T_max w" "\<bar>b * c\<bar> \<le> T_max w"
    unfolding operator_div_small [OF that(2,3)]
    using bc [OF that(1)] that(2,3) by (rule Ratio_parts_exact)
  ultimately show ?thesis
    by blast
qed

text \<open>The sum and the quotient of \<open>10/3\<close> and \<open>-1/2\<close> on \<open>Ratio<std::int32_t>\<close>.\<close>

theorem arithmetic_cross_multiplies_witness:
  "normal \<lparr>numer = 10, denom = 3\<rparr> \<and> normal \<lparr>numer = -1, denom = 2\<rparr> \<and> (-1 :: int) \<noteq> 0
   \<and> \<bar>(10 :: int) * 2 + 3 * (-1)\<bar> \<le> T_max 32 \<and> \<bar>(3 :: int) * 2\<bar> \<le> T_max 32
   \<and> \<bar>(10 :: int) * 2\<bar> \<le> T_max 32 \<and> \<bar>(3 :: int) * (-1)\<bar> \<le> T_max 32
   \<and> (\<exists>r. operator_plus 32 \<lparr>numer = 10, denom = 3\<rparr> \<lparr>numer = -1, denom = 2\<rparr> = Inr r
          \<and> normal r \<and> exact r = 17 / 6)
   \<and> (\<exists>r. operator_div 32 \<lparr>numer = 10, denom = 3\<rparr> \<lparr>numer = -1, denom = 2\<rparr> = Inr r
          \<and> normal r \<and> exact r = - 20 / 3)"
proof -
  have x: "normal \<lparr>numer = 10, denom = 3\<rparr>" and y: "normal \<lparr>numer = -1, denom = 2\<rparr>"
    by code_simp+
  have r: "\<bar>(10 :: int) * 2 + 3 * (-1)\<bar> \<le> T_max 32" "\<bar>(3 :: int) * 2\<bar> \<le> T_max 32"
      "\<bar>(10 :: int) * 2\<bar> \<le> T_max 32" "\<bar>(3 :: int) * (-1)\<bar> \<le> T_max 32"
    by (simp_all add: T_max_def)
  show ?thesis
    using arithmetic_cross_multiplies [OF x y, of 32] x y r by simp
qed

text \<open>
  On \<open>Ratio<std::int32_t>\<close>, \<open>3/65536 % 1/65537\<close> has the denominator
  \<open>65536 * 65537\<close>, which wraps around to \<open>65536\<close>: the result is \<open>3/65536\<close>, not
  \<open>3/(65536 * 65537)\<close>. \<open>1/65536 % 1/65536\<close> has a denominator that wraps around to
  0, and the constructor throws.
\<close>

theorem modulo_overflows:
  "normal \<lparr>numer = 3, denom = 65536\<rparr> \<and> normal \<lparr>numer = 1, denom = 65537\<rparr>
   \<and> T_min 32 \<le> 65537 \<and> 65537 \<le> T_max 32 \<and> (1 :: int) \<noteq> 0
   \<and> operator_mod 32 \<lparr>numer = 3, denom = 65536\<rparr> \<lparr>numer = 1, denom = 65537\<rparr>
       = Inr \<lparr>numer = 3, denom = 65536\<rparr>
   \<and> exact \<lparr>numer = 3, denom = 65536\<rparr>
       \<noteq> of_int ((3 * 65537) smod (65536 * 1)) / of_int (65536 * 65537)
   \<and> normal \<lparr>numer = 1, denom = 65536\<rparr>
   \<and> operator_mod 32 \<lparr>numer = 1, denom = 65536\<rparr> \<lparr>numer = 1, denom = 65536\<rparr>
       = Inl DivideByZeroException"
  by code_simp

text \<open>
  C7, amended. For operands \<open>a/b\<close> and \<open>c/d\<close> in normal form with \<open>c\<close> not 0, \<open>%\<close>
  returns the normal form of \<open>(a*d smod b*c)/(b*d)\<close>, where \<open>smod\<close> is the truncating
  remainder of the integral type, and the sign of the result is the sign of that
  remainder, provided the products \<open>a*d\<close>, \<open>b*c\<close> and \<open>b*d\<close> are, in magnitude,
  values of \<open>T\<close>.
\<close>

theorem modulo_cross_multiplies:
  assumes "normal \<lparr>numer = a, denom = b\<rparr>" and "normal \<lparr>numer = c, denom = d\<rparr>"
    and "c \<noteq> 0"
    and "\<bar>a * d\<bar> \<le> T_max w" and "\<bar>b * c\<bar> \<le> T_max w" and "\<bar>b * d\<bar> \<le> T_max w"
  shows "\<exists>r. operator_mod w \<lparr>numer = a, denom = b\<rparr> \<lparr>numer = c, denom = d\<rparr> = Inr r
           \<and> normal r
           \<and> exact r = of_int ((a * d) smod (b * c)) / of_int (b * d)
           \<and> sgn (numer r) = sgn ((a * d) smod (b * c))"
proof -
  have b: "0 < b" and d: "0 < d"
    using assms by (simp_all add: normal_def)
  then have bd: "b * d \<noteq> 0" and bdpos: "0 < b * d" by simp_all
  have bc: "b * c \<noteq> 0"
    using b assms(3) by simp
  let ?m = "(a * d) smod (b * c)"
  have "\<bar>?m\<bar> < \<bar>b * c\<bar>"
    using smod_int_range [OF bc, of "a * d"] by auto
  then have m: "\<bar>?m\<bar> \<le> T_max w"
    using assms(5) by simp
  obtain r where r: "Ratio_parts w ?m (b * d) = Inr r" "normal r"
      "numer r * (b * d) = ?m * denom r"
    using Ratio_parts_normal [OF bd m assms(6)] by blast
  have dr: "0 < denom r"
    using r(2) by (rule normal_denom_pos)
  have "sgn (numer r * (b * d)) = sgn (?m * denom r)"
    using r(3) by simp
  then have sg: "sgn (numer r) = sgn ?m"
    using b d dr by (simp add: sgn_mult)
  have "exact r = of_int ?m / of_int (b * d)"
    using r(3) dr bd by (simp add: exact_def frac_eq_eq flip: of_int_mult)
  moreover have "operator_mod w \<lparr>numer = a, denom = b\<rparr> \<lparr>numer = c, denom = d\<rparr> = Inr r"
    using r(1) by (simp add: operator_mod_small [OF assms(4-6) bc])
  ultimately show ?thesis
    using r(2) sg by blast
qed

text \<open>The remainder of \<open>-7/2\<close> by \<open>1/3\<close> is \<open>-1/6\<close>, on \<open>Ratio<std::int32_t>\<close>.\<close>

theorem modulo_cross_multiplies_witness:
  "normal \<lparr>numer = -7, denom = 2\<rparr> \<and> normal \<lparr>numer = 1, denom = 3\<rparr> \<and> (1 :: int) \<noteq> 0
   \<and> \<bar>(-7 :: int) * 3\<bar> \<le> T_max 32 \<and> \<bar>(2 :: int) * 1\<bar> \<le> T_max 32
   \<and> \<bar>(2 :: int) * 3\<bar> \<le> T_max 32
   \<and> (\<exists>r. operator_mod 32 \<lparr>numer = -7, denom = 2\<rparr> \<lparr>numer = 1, denom = 3\<rparr> = Inr r
          \<and> normal r \<and> exact r = - 1 / 6 \<and> sgn (numer r) = - 1)"
proof -
  have x: "normal \<lparr>numer = -7, denom = 2\<rparr>" and y: "normal \<lparr>numer = 1, denom = 3\<rparr>"
    by (simp_all add: normal_def)
  have r: "\<bar>(-7 :: int) * 3\<bar> \<le> T_max 32" "\<bar>(2 :: int) * 1\<bar> \<le> T_max 32"
      "\<bar>(2 :: int) * 3\<bar> \<le> T_max 32"
    by (simp_all add: T_max_def)
  have m: "(- 21 :: int) smod 2 = - 1"
    by (simp add: signed_modulo_int_def)
  show ?thesis
    using modulo_cross_multiplies [OF x y _ r] x y r m by simp
qed

text \<open>
  On \<open>Ratio<std::int32_t>\<close>, \<open>a - a\<close> at \<open>a = 1/65536\<close> has the denominator
  \<open>65536 * 65536\<close>, which wraps around to 0: the constructor throws instead of
  returning \<open>zero()\<close>. At \<open>a = -2147483648/2147483647\<close>, whose numerator has no
  negation in \<open>T\<close>, \<open>gcd\<close> returns \<open>-1\<close> and \<open>a + zero()\<close> traps in the division by it.
\<close>

theorem identity_overflows:
  "normal \<lparr>numer = 1, denom = 65536\<rparr>
   \<and> T_min 32 \<le> 65536 \<and> 65536 \<le> T_max 32
   \<and> operator_minus 32 \<lparr>numer = 1, denom = 65536\<rparr> \<lparr>numer = 1, denom = 65536\<rparr>
       = Inl DivideByZeroException
   \<and> normal \<lparr>numer = - 2147483648, denom = 2147483647\<rparr>
   \<and> T_min 32 \<le> - 2147483648 \<and> 2147483647 \<le> T_max 32
   \<and> operator_plus 32 \<lparr>numer = - 2147483648, denom = 2147483647\<rparr> zero_r
       = Inl IntegralDivisionOverflow"
  by code_simp

text \<open>
  C8, amended. For a ratio \<open>a\<close> in normal form: \<open>a + zero()\<close> and \<open>a * one()\<close> are \<open>a\<close>
  when the numerator of \<open>a\<close> is, in magnitude, a value of \<open>T\<close>; \<open>a - a\<close> is \<open>zero()\<close>
  when the square of the denominator of \<open>a\<close> is a value of \<open>T\<close>; and, when \<open>a\<close> is
  not zero, \<open>a / a\<close> is \<open>one()\<close> when the product of its numerator and denominator
  is, in magnitude, a value of \<open>T\<close>. The results are the very same ratios, and \<open>==\<close>
  holds of them too.
\<close>

theorem arithmetic_identities:
  assumes "normal a"
  shows "(\<bar>numer a\<bar> \<le> T_max w \<and> denom a \<le> T_max w \<longrightarrow>
            (\<exists>r. operator_plus w a zero_r = Inr r \<and> r = a \<and> operator_eq w r a)
          \<and> (\<exists>r. operator_times w a one_r = Inr r \<and> r = a \<and> operator_eq w r a))
       \<and> (denom a * denom a \<le> T_max w \<longrightarrow>
            (\<exists>r. operator_minus w a a = Inr r \<and> r = zero_r \<and> operator_eq w r zero_r))
       \<and> (numer a \<noteq> 0 \<and> \<bar>numer a * denom a\<bar> \<le> T_max w \<longrightarrow>
            (\<exists>r. operator_div w a a = Inr r \<and> r = one_r \<and> operator_eq w r one_r))"
proof -
  obtain n d where a: "a = \<lparr>numer = n, denom = d\<rparr>"
    by (cases a) simp
  have d: "0 < d"
    using assms a by (simp add: normal_def)
  have p: "operator_plus w a zero_r = Inr a" and t: "operator_times w a one_r = Inr a"
    if "\<bar>numer a\<bar> \<le> T_max w" "denom a \<le> T_max w"
  proof -
    have "Ratio_parts w n d = Inr a"
      using normal_Ratio_parts [OF assms that] a by simp
    then show "operator_plus w a zero_r = Inr a" "operator_times w a one_r = Inr a"
      using that d a
      by (simp_all add: zero_r_def one_r_def Ratio_noreduce_def operator_plus_small
          operator_times_small)
  qed
  have m: "operator_minus w a a = Inr zero_r" if "denom a * denom a \<le> T_max w"
  proof -
    have dd: "\<bar>d * d\<bar> \<le> T_max w"
      using that a by simp
    have "1 \<le> d * d"
      using d by (simp add: mult_le_cancel_left1 int_one_le_iff_zero_less)
    with dd have z: "\<bar>n * d - d * n\<bar> \<le> T_max w" "\<bar>0 :: int\<bar> \<le> T_max w"
      by simp_all
    have "Ratio_parts w 0 (d * d) = Inr zero_r"
      using d dd z(2) normal_zero_r
      by (intro Ratio_parts_eqI) (simp_all add: zero_r_def Ratio_noreduce_def)
    then show ?thesis
      using operator_minus_small [OF z(1) dd] a by (simp add: mult.commute)
  qed
  have q: "operator_div w a a = Inr one_r"
    if "numer a \<noteq> 0" "\<bar>numer a * denom a\<bar> \<le> T_max w"
  proof -
    have nd: "\<bar>n * d\<bar> \<le> T_max w" "\<bar>d * n\<bar> \<le> T_max w" "n \<noteq> 0"
      using that a by (simp_all add: mult.commute)
    have "Ratio_parts w (n * d) (d * n) = Inr one_r"
      using d nd normal_one_r
      by (intro Ratio_parts_eqI) (simp_all add: one_r_def Ratio_noreduce_def mult.commute)
    then show ?thesis
      using operator_div_small [OF nd(1,2)] a by simp
  qed
  show ?thesis
    using p t m q by (simp add: operator_eq_def)
qed

text \<open>The four identities at \<open>-7/2\<close> on \<open>Ratio<std::int32_t>\<close>.\<close>

theorem arithmetic_identities_witness:
  "normal \<lparr>numer = -7, denom = 2\<rparr> \<and> numer \<lparr>numer = -7, denom = 2\<rparr> \<noteq> 0
   \<and> \<bar>numer \<lparr>numer = -7, denom = 2\<rparr>\<bar> \<le> T_max 32
   \<and> denom \<lparr>numer = -7, denom = 2\<rparr> \<le> T_max 32
   \<and> denom \<lparr>numer = -7, denom = 2\<rparr> * denom \<lparr>numer = -7, denom = 2\<rparr> \<le> T_max 32
   \<and> \<bar>numer \<lparr>numer = -7, denom = 2\<rparr> * denom \<lparr>numer = -7, denom = 2\<rparr>\<bar> \<le> T_max 32
   \<and> operator_plus 32 \<lparr>numer = -7, denom = 2\<rparr> zero_r = Inr \<lparr>numer = -7, denom = 2\<rparr>
   \<and> operator_times 32 \<lparr>numer = -7, denom = 2\<rparr> one_r = Inr \<lparr>numer = -7, denom = 2\<rparr>
   \<and> operator_minus 32 \<lparr>numer = -7, denom = 2\<rparr> \<lparr>numer = -7, denom = 2\<rparr> = Inr zero_r
   \<and> operator_div 32 \<lparr>numer = -7, denom = 2\<rparr> \<lparr>numer = -7, denom = 2\<rparr> = Inr one_r"
proof -
  have x: "normal \<lparr>numer = -7, denom = 2\<rparr>"
    by (simp add: normal_def)
  have r: "(14 :: int) \<le> T_max 32"
    by (simp add: T_max_def)
  show ?thesis
    using arithmetic_identities [OF x, of 32] x r by simp
qed

section \<open>Rounding\<close>



















subsection \<open>\<open>round\<close>\<close>



















section \<open>The invariant of the public operations\<close>

text \<open>
  The constructor returns an integer over 1 as it is, whatever the integer; so the
  results of \<open>round\<close> are in normal form even where its sign tests overflow.
\<close>

lemma Ratio_parts_integer: "Ratio_parts w x 1 = Inr \<lparr>numer = x, denom = 1\<rparr>"
proof -
  have "gcd_loop w y 1 = Inr 1" for y
    by (subst gcd_loop.simps) (simp add: overflows_def signed_modulo_int_def)
  then have "gcd_T w x 1 = Inr 1"
    by (simp add: gcd_T_def)
  then show ?thesis
    by (simp add: Ratio_parts_def Ratio_noreduce_def reduce_def and_then_def c_div_pos)
qed

lemma wrap_1: "8 \<le> w \<Longrightarrow> wrap w 1 = 1"
  using T_max_pos [of w] by (simp add: wrap_small)

lemma step_normal:
  assumes "8 \<le> w"
  shows "\<exists>r. operator_plus w \<lparr>numer = q, denom = 1\<rparr> (Ratio_value 1) = Inr r \<and> normal r"
    and "\<exists>r. operator_minus w \<lparr>numer = q, denom = 1\<rparr> (Ratio_value 1) = Inr r \<and> normal r"
  using assms
  by (simp_all add: operator_plus_def operator_minus_def Ratio_value_def Ratio_noreduce_def
      mul_T_def wrap_1 Ratio_parts_integer normal_def)

lemma negated_fraction_normal:
  assumes "normal \<lparr>numer = m, denom = d\<rparr>" and "\<bar>m\<bar> \<le> T_max w" and "d \<le> T_max w"
  shows "\<exists>r. operator_minus w (Ratio_value 0) \<lparr>numer = m, denom = d\<rparr> = Inr r \<and> normal r"
proof -
  have d: "0 < d"
    using assms(1) by (simp add: normal_def)
  have "operator_minus w \<lparr>numer = 0, denom = 1\<rparr> \<lparr>numer = m, denom = d\<rparr>
      = Ratio_parts w (0 * d - 1 * m) (1 * d)"
    using assms d by (intro operator_minus_small) simp_all
  moreover have "\<exists>r. Ratio_parts w (- m) d = Inr r \<and> normal r"
    using Ratio_parts_normal [of d "- m" w] assms d by auto
  ultimately show ?thesis
    by (simp add: Ratio_value_def Ratio_noreduce_def)
qed

lemma round_normal:
  assumes w: "8 \<le> w" and a: "normal a" and dM: "denom a \<le> T_max w"
  shows "\<exists>r. round_r w a = Inr r \<and> normal r"
proof -
  let ?f = "\<lparr>numer = numer a smod denom a, denom = denom a\<rparr>"
  have d: "0 < denom a"
    using a by (rule normal_denom_pos)
  have nf: "normal ?f"
    using a by (rule normal_fract)
  have "\<bar>numer a smod denom a\<bar> < \<bar>denom a\<bar>"
    using smod_int_range [of "denom a" "numer a"] d by auto
  then have mM: "\<bar>numer a smod denom a\<bar> \<le> T_max w"
    using dM d by simp
  obtain fr where fr: "(if operator_lt w ?f (Ratio_value 0)
      then operator_minus w (Ratio_value 0) ?f else Inr ?f) = Inr fr"
    using negated_fraction_normal [OF nf mM dM] by (cases "operator_lt w ?f (Ratio_value 0)") auto
  have t: "trunc w a = Inr \<lparr>numer = numer a sdiv denom a, denom = 1\<rparr>"
    using d by (rule trunc_pos)
  have nt: "normal \<lparr>numer = numer a sdiv denom a, denom = 1\<rparr>"
    by (simp add: normal_def)
  have "round_r w a = (if half_or_larger w fr then
              if operator_gt w a (Ratio_value 0)
              then operator_plus w \<lparr>numer = numer a sdiv denom a, denom = 1\<rparr> (Ratio_value 1)
              else operator_minus w \<lparr>numer = numer a sdiv denom a, denom = 1\<rparr> (Ratio_value 1)
            else Inr \<lparr>numer = numer a sdiv denom a, denom = 1\<rparr>)"
    using fr d by (simp add: round_r_def fract_pos t Let_def and_then_def)
  then show ?thesis
    using step_normal [OF w, of "numer a sdiv denom a"] nt by auto
qed

lemma wrap_neg_T_min: "wrap w (- T_min w) = T_min w"
proof (cases w)
  case 0
  then show ?thesis
    by (simp add: wrap_def T_min_def)
next
  case (Suc k)
  then have e: "- T_min w = T_min w + 1 * 2 ^ w"
    by (simp add: T_min_def)
  have "(- T_min w) mod 2 ^ w = T_min w mod 2 ^ w"
    unfolding e by (rule mod_mult_self1)
  then have "wrap w (- T_min w) = wrap w (T_min w)"
    by (rule wrap_cong)
  also have "\<dots> = T_min w"
    using Suc by (intro wrap_id) (simp_all add: T_min_def T_max_def)
  finally show ?thesis .
qed

lemma normal_neg:
  assumes "normal a" and "T_min w \<le> numer a" and "numer a \<le> T_max w"
  shows "normal (operator_neg w a)"
proof (cases "numer a = T_min w")
  case True
  then show ?thesis
    using assms(1)
    by (simp add: operator_neg_def neg_T_def wrap_neg_T_min Ratio_noreduce_def normal_def)
next
  case False
  then have "\<bar>numer a\<bar> \<le> T_max w"
    using assms(2,3) by (simp add: T_min_def T_max_def)
  then show ?thesis
    using assms(1)
    by (simp add: operator_neg_def neg_T_small Ratio_noreduce_def normal_def)
qed

lemma normal_pi_r: "6283 \<le> T_max w \<Longrightarrow> normal (pi_r w)"
proof -
  assume "6283 \<le> T_max w"
  then have "wrap w 6283 = 6283" "wrap w 2000 = 2000"
    by (simp_all add: wrap_small)
  moreover have "normal \<lparr>numer = 6283, denom = 2000\<rparr>"
    by code_simp
  ultimately show ?thesis
    by (simp add: pi_r_def Ratio_noreduce_def)
qed

lemma rounding_normal:
  assumes a: "normal a"
  shows "\<exists>r. floor_r w a = Inr r \<and> normal r"
    and "\<exists>r. ceil_r w a = Inr r \<and> normal r"
    and "\<exists>r. trunc w a = Inr r \<and> normal r"
    and "\<exists>r. fract w a = Inr r \<and> normal r"
proof -
  have d: "0 < denom a"
    using a by (rule normal_denom_pos)
  show "\<exists>r. floor_r w a = Inr r \<and> normal r"
    using d by (simp add: floor_r_def c_div_pos and_then_def normal_Ratio_value)
  show "\<exists>r. ceil_r w a = Inr r \<and> normal r"
    using d by (simp add: ceil_r_def c_div_pos and_then_def normal_Ratio_value)
  show "\<exists>r. trunc w a = Inr r \<and> normal r"
    using d by (simp add: trunc_pos normal_def)
  show "\<exists>r. fract w a = Inr r \<and> normal r"
    using d a by (simp add: fract_pos normal_fract)
qed


lemma binary_operators_normal:
  assumes a: "normal \<lparr>numer = a, denom = b\<rparr>" and b: "normal \<lparr>numer = c, denom = d\<rparr>"
  shows "\<bar>a * d + b * c\<bar> \<le> T_max w \<Longrightarrow> \<bar>b * d\<bar> \<le> T_max w \<Longrightarrow>
      \<exists>r. operator_plus w \<lparr>numer = a, denom = b\<rparr> \<lparr>numer = c, denom = d\<rparr> = Inr r \<and> normal r"
    and "\<bar>a * d - b * c\<bar> \<le> T_max w \<Longrightarrow> \<bar>b * d\<bar> \<le> T_max w \<Longrightarrow>
      \<exists>r. operator_minus w \<lparr>numer = a, denom = b\<rparr> \<lparr>numer = c, denom = d\<rparr> = Inr r \<and> normal r"
    and "\<bar>a * c\<bar> \<le> T_max w \<Longrightarrow> \<bar>b * d\<bar> \<le> T_max w \<Longrightarrow>
      \<exists>r. operator_times w \<lparr>numer = a, denom = b\<rparr> \<lparr>numer = c, denom = d\<rparr> = Inr r \<and> normal r"
    and "c \<noteq> 0 \<Longrightarrow> \<bar>a * d\<bar> \<le> T_max w \<Longrightarrow> \<bar>b * c\<bar> \<le> T_max w \<Longrightarrow>
      \<exists>r. operator_div w \<lparr>numer = a, denom = b\<rparr> \<lparr>numer = c, denom = d\<rparr> = Inr r \<and> normal r"
    and "c \<noteq> 0 \<Longrightarrow> \<bar>a * d\<bar> \<le> T_max w \<Longrightarrow> \<bar>b * c\<bar> \<le> T_max w \<Longrightarrow> \<bar>b * d\<bar> \<le> T_max w \<Longrightarrow>
      \<exists>r. operator_mod w \<lparr>numer = a, denom = b\<rparr> \<lparr>numer = c, denom = d\<rparr> = Inr r \<and> normal r"
    and "c = 0 \<Longrightarrow>
      operator_div w \<lparr>numer = a, denom = b\<rparr> \<lparr>numer = c, denom = d\<rparr>
        = Inl DivideByZeroException"
    and "c = 0 \<Longrightarrow>
      operator_mod w \<lparr>numer = a, denom = b\<rparr> \<lparr>numer = c, denom = d\<rparr>
        = Inl IntegralDivisionByZero"
proof -
  have bd: "b * d \<noteq> 0" and bpos: "b \<noteq> 0"
    using a b by (simp_all add: normal_def)
  show "\<exists>r. operator_plus w \<lparr>numer = a, denom = b\<rparr> \<lparr>numer = c, denom = d\<rparr> = Inr r \<and> normal r"
    if "\<bar>a * d + b * c\<bar> \<le> T_max w" "\<bar>b * d\<bar> \<le> T_max w"
    unfolding operator_plus_small [OF that]
    using Ratio_parts_normal [OF bd that] by blast
  show "\<exists>r. operator_minus w \<lparr>numer = a, denom = b\<rparr> \<lparr>numer = c, denom = d\<rparr> = Inr r \<and> normal r"
    if "\<bar>a * d - b * c\<bar> \<le> T_max w" "\<bar>b * d\<bar> \<le> T_max w"
    unfolding operator_minus_small [OF that]
    using Ratio_parts_normal [OF bd that] by blast
  show "\<exists>r. operator_times w \<lparr>numer = a, denom = b\<rparr> \<lparr>numer = c, denom = d\<rparr> = Inr r \<and> normal r"
    if "\<bar>a * c\<bar> \<le> T_max w" "\<bar>b * d\<bar> \<le> T_max w"
    unfolding operator_times_small [OF that]
    using Ratio_parts_normal [OF bd that] by blast
  show "\<exists>r. operator_div w \<lparr>numer = a, denom = b\<rparr> \<lparr>numer = c, denom = d\<rparr> = Inr r \<and> normal r"
    if "c \<noteq> 0" "\<bar>a * d\<bar> \<le> T_max w" "\<bar>b * c\<bar> \<le> T_max w"
  proof -
    have bc: "b * c \<noteq> 0"
      using bpos that(1) by simp
    show ?thesis
      unfolding operator_div_small [OF that(2,3)]
      using Ratio_parts_normal [OF bc that(2,3)] by blast
  qed
  show "\<exists>r. operator_mod w \<lparr>numer = a, denom = b\<rparr> \<lparr>numer = c, denom = d\<rparr> = Inr r \<and> normal r"
    if "c \<noteq> 0" "\<bar>a * d\<bar> \<le> T_max w" "\<bar>b * c\<bar> \<le> T_max w" "\<bar>b * d\<bar> \<le> T_max w"
  proof -
    have bc: "b * c \<noteq> 0"
      using bpos that(1) by simp
    have "\<bar>(a * d) smod (b * c)\<bar> < \<bar>b * c\<bar>"
      using smod_int_range [OF bc, of "a * d"] by auto
    then have m: "\<bar>(a * d) smod (b * c)\<bar> \<le> T_max w"
      using that(3) by simp
    show ?thesis
      unfolding operator_mod_small [OF that(2-4) bc]
      using Ratio_parts_normal [OF bd m that(4)] by blast
  qed
  show "operator_div w \<lparr>numer = a, denom = b\<rparr> \<lparr>numer = c, denom = d\<rparr>
        = Inl DivideByZeroException" if "c = 0"
    using that by (simp add: operator_div_def make_ratio_def Ratio_parts_def mul_T_def wrap_0)
  show "operator_mod w \<lparr>numer = a, denom = b\<rparr> \<lparr>numer = c, denom = d\<rparr>
        = Inl IntegralDivisionByZero" if "c = 0"
    using that by (simp add: operator_mod_def c_mod_def and_then_def mul_T_def wrap_0)
qed

text \<open>
  On \<open>Ratio<std::int32_t>\<close>, \<open>Ratio(1, -2147483648)\<close> cannot negate its denominator
  and returns \<open>-1/-2147483648\<close>; so does \<open>1/65536 * 1/32768\<close>, whose denominator
  wraps around to \<open>-2147483648\<close>. On \<open>Ratio<std::int8_t>\<close>, the literals of \<open>pi()\<close>
  convert to \<open>-117/-48\<close>. None of the three is in normal form.
\<close>

theorem invariant_overflows:
  "T_min 32 \<le> - 2147483648 \<and> - 2147483648 \<le> T_max 32 \<and> (- 2147483648 :: int) \<noteq> 0
   \<and> Ratio_parts 32 1 (- 2147483648) = Inr \<lparr>numer = - 1, denom = - 2147483648\<rparr>
   \<and> \<not> normal \<lparr>numer = - 1, denom = - 2147483648\<rparr>
   \<and> normal \<lparr>numer = 1, denom = 65536\<rparr> \<and> normal \<lparr>numer = 1, denom = 32768\<rparr>
   \<and> operator_times 32 \<lparr>numer = 1, denom = 65536\<rparr> \<lparr>numer = 1, denom = 32768\<rparr>
       = Inr \<lparr>numer = - 1, denom = - 2147483648\<rparr>
   \<and> pi_r 8 = \<lparr>numer = - 117, denom = - 48\<rparr>
   \<and> \<not> normal \<lparr>numer = - 117, denom = - 48\<rparr>"
  by code_simp

text \<open>
  C2, amended. On a type \<open>T\<close> of at least 8 bits, these public operations return
  ratios in normal form, with a positive denominator that shares no factor with the
  numerator, and zero is \<open>0/1\<close>: the two-part constructor on a denominator other than
  0, when both parts are, in magnitude, values of \<open>T\<close>; the one-value constructor;
  the factories \<open>zero\<close> and \<open>one\<close>, and \<open>pi\<close> when \<open>T\<close> holds 6283; and, on operands
  in normal form whose members are values of \<open>T\<close>, unary minus, \<open>floor\<close>, \<open>ceil\<close>,
  \<open>round\<close>, \<open>trunc\<close> and \<open>fract\<close>, and the binary operators \<open>+\<close>, \<open>-\<close>, \<open>*\<close>, \<open>/\<close> and
  \<open>%\<close> when the numerator and the denominator they hand to the constructor (for \<open>/\<close>
  and \<open>%\<close>, the cross products) are, in magnitude, values of \<open>T\<close>. \<open>/\<close> and \<open>%\<close> return
  no ratio when the right operand is zero.
\<close>

theorem public_values_normal:
  assumes w: "8 \<le> w"
    and a: "normal \<lparr>numer = a, denom = b\<rparr>" and c: "normal \<lparr>numer = c, denom = d\<rparr>"
    and ra: "T_min w \<le> a" "a \<le> T_max w" "b \<le> T_max w"
  shows "(k \<noteq> 0 \<and> \<bar>n\<bar> \<le> T_max w \<and> \<bar>k\<bar> \<le> T_max w \<longrightarrow>
            (\<exists>r. Ratio_parts w n k = Inr r \<and> normal r))
       \<and> normal (Ratio_value u)
       \<and> normal zero_r \<and> normal one_r
       \<and> (6283 \<le> T_max w \<longrightarrow> normal (pi_r w))
       \<and> normal (operator_neg w \<lparr>numer = a, denom = b\<rparr>)
       \<and> (\<bar>a * d + b * c\<bar> \<le> T_max w \<and> \<bar>b * d\<bar> \<le> T_max w \<longrightarrow>
            (\<exists>r. operator_plus w \<lparr>numer = a, denom = b\<rparr> \<lparr>numer = c, denom = d\<rparr> = Inr r
               \<and> normal r))
       \<and> (\<bar>a * d - b * c\<bar> \<le> T_max w \<and> \<bar>b * d\<bar> \<le> T_max w \<longrightarrow>
            (\<exists>r. operator_minus w \<lparr>numer = a, denom = b\<rparr> \<lparr>numer = c, denom = d\<rparr> = Inr r
               \<and> normal r))
       \<and> (\<bar>a * c\<bar> \<le> T_max w \<and> \<bar>b * d\<bar> \<le> T_max w \<longrightarrow>
            (\<exists>r. operator_times w \<lparr>numer = a, denom = b\<rparr> \<lparr>numer = c, denom = d\<rparr> = Inr r
               \<and> normal r))
       \<and> (c \<noteq> 0 \<and> \<bar>a * d\<bar> \<le> T_max w \<and> \<bar>b * c\<bar> \<le> T_max w \<longrightarrow>
            (\<exists>r. operator_div w \<lparr>numer = a, denom = b\<rparr> \<lparr>numer = c, denom = d\<rparr> = Inr r
               \<and> normal r))
       \<and> (c \<noteq> 0 \<and> \<bar>a * d\<bar> \<le> T_max w \<and> \<bar>b * c\<bar> \<le> T_max w \<and> \<bar>b * d\<bar> \<le> T_max w \<longrightarrow>
            (\<exists>r. operator_mod w \<lparr>numer = a, denom = b\<rparr> \<lparr>numer = c, denom = d\<rparr> = Inr r
               \<and> normal r))
       \<and> (c = 0 \<longrightarrow>
            operator_div w \<lparr>numer = a, denom = b\<rparr> \<lparr>numer = c, denom = d\<rparr>
              = Inl DivideByZeroException
          \<and> operator_mod w \<lparr>numer = a, denom = b\<rparr> \<lparr>numer = c, denom = d\<rparr>
              = Inl IntegralDivisionByZero)
       \<and> (\<exists>r. floor_r w \<lparr>numer = a, denom = b\<rparr> = Inr r \<and> normal r)
       \<and> (\<exists>r. ceil_r w \<lparr>numer = a, denom = b\<rparr> = Inr r \<and> normal r)
       \<and> (\<exists>r. round_r w \<lparr>numer = a, denom = b\<rparr> = Inr r \<and> normal r)
       \<and> (\<exists>r. trunc w \<lparr>numer = a, denom = b\<rparr> = Inr r \<and> normal r)
       \<and> (\<exists>r. fract w \<lparr>numer = a, denom = b\<rparr> = Inr r \<and> normal r)
       \<and> (a = 0 \<longrightarrow> b = 1)"
proof -
  have z: "b = 1" if "a = 0"
    using a that by (auto simp: normal_def)
  have p: "\<exists>r. Ratio_parts w n k = Inr r \<and> normal r"
    if "k \<noteq> 0" "\<bar>n\<bar> \<le> T_max w" "\<bar>k\<bar> \<le> T_max w"
    using Ratio_parts_normal [OF that] by blast
  have neg: "normal (operator_neg w \<lparr>numer = a, denom = b\<rparr>)"
    using a ra by (intro normal_neg) simp_all
  have rnd: "\<exists>r. round_r w \<lparr>numer = a, denom = b\<rparr> = Inr r \<and> normal r"
    using w a ra by (intro round_normal) simp_all
  show ?thesis
    using p normal_Ratio_value [of u] normal_zero_r normal_one_r normal_pi_r [of w] neg
      binary_operators_normal [OF a c, of w] rounding_normal [OF a, of w] rnd z
    by blast
qed

text \<open>
  The operations at \<open>-7/2\<close> and \<open>1/3\<close>, and the constructor at \<open>6\<close> and \<open>-4\<close>, on
  \<open>Ratio<std::int32_t>\<close>.
\<close>

theorem public_values_normal_witness:
  "(8 :: nat) \<le> 32
   \<and> normal \<lparr>numer = -7, denom = 2\<rparr> \<and> normal \<lparr>numer = 1, denom = 3\<rparr>
   \<and> T_min 32 \<le> -7 \<and> -7 \<le> T_max 32 \<and> 2 \<le> T_max 32
   \<and> (-4 :: int) \<noteq> 0 \<and> \<bar>6 :: int\<bar> \<le> T_max 32 \<and> \<bar>-4 :: int\<bar> \<le> T_max 32
   \<and> 6283 \<le> T_max 32 \<and> (1 :: int) \<noteq> 0
   \<and> \<bar>(-7 :: int) * 3 + 2 * 1\<bar> \<le> T_max 32 \<and> \<bar>(-7 :: int) * 3 - 2 * 1\<bar> \<le> T_max 32
   \<and> \<bar>(-7 :: int) * 1\<bar> \<le> T_max 32 \<and> \<bar>(-7 :: int) * 3\<bar> \<le> T_max 32
   \<and> \<bar>(2 :: int) * 1\<bar> \<le> T_max 32 \<and> \<bar>(2 :: int) * 3\<bar> \<le> T_max 32
   \<and> (\<exists>r. Ratio_parts 32 6 (-4) = Inr r \<and> normal r)
   \<and> normal (pi_r 32)
   \<and> normal (operator_neg 32 \<lparr>numer = -7, denom = 2\<rparr>)
   \<and> (\<exists>r. operator_plus 32 \<lparr>numer = -7, denom = 2\<rparr> \<lparr>numer = 1, denom = 3\<rparr> = Inr r \<and> normal r)
   \<and> (\<exists>r. operator_minus 32 \<lparr>numer = -7, denom = 2\<rparr> \<lparr>numer = 1, denom = 3\<rparr> = Inr r \<and> normal r)
   \<and> (\<exists>r. operator_times 32 \<lparr>numer = -7, denom = 2\<rparr> \<lparr>numer = 1, denom = 3\<rparr> = Inr r \<and> normal r)
   \<and> (\<exists>r. operator_div 32 \<lparr>numer = -7, denom = 2\<rparr> \<lparr>numer = 1, denom = 3\<rparr> = Inr r \<and> normal r)
   \<and> (\<exists>r. operator_mod 32 \<lparr>numer = -7, denom = 2\<rparr> \<lparr>numer = 1, denom = 3\<rparr> = Inr r \<and> normal r)
   \<and> (\<exists>r. round_r 32 \<lparr>numer = -7, denom = 2\<rparr> = Inr r \<and> normal r)
   \<and> (\<exists>r. fract 32 \<lparr>numer = -7, denom = 2\<rparr> = Inr r \<and> normal r)"
proof -
  have w: "(8 :: nat) \<le> 32"
    by simp
  have x: "normal \<lparr>numer = -7, denom = 2\<rparr>" and y: "normal \<lparr>numer = 1, denom = 3\<rparr>"
    by (simp_all add: normal_def)
  have r: "T_min 32 \<le> -7" "-7 \<le> T_max 32" "2 \<le> T_max 32"
    by (simp_all add: T_min_def T_max_def)
  have m: "T_max 32 = 2147483647"
    by (simp add: T_max_def)
  show ?thesis
    using public_values_normal [OF w x y r, of "-4" 6] x y r by (simp add: m)
qed

end
